theory Spec2Isabelle
  imports Complex_Main "HOL-Library.Product_Lexorder" "HOL-Library.Multiset"
begin

section \<open>JavaScript numbers\<close>

text \<open>
  A JavaScript number is NaN, one of the two infinities, or a finite value. Finite values
  are kept as exact rationals: the rounding of IEEE doubles, overflow to infinity and the
  negative zero are outside this model. Every operation below follows the ECMAScript
  definition of the operator it is named after.
\<close>

datatype jsnum = NaN | NegInf | Fin rat | PosInf

fun isNaN :: "jsnum \<Rightarrow> bool" where
  "isNaN NaN = True"
| "isNaN _ = False"

fun js_neg :: "jsnum \<Rightarrow> jsnum" where
  "js_neg NaN = NaN"
| "js_neg NegInf = PosInf"
| "js_neg PosInf = NegInf"
| "js_neg (Fin q) = Fin (- q)"

text \<open>\<open>a < b\<close>; every comparison with NaN is false.\<close>

fun js_lt :: "jsnum \<Rightarrow> jsnum \<Rightarrow> bool" where
  "js_lt (Fin a) (Fin b) = (a < b)"
| "js_lt NegInf (Fin b) = True"
| "js_lt NegInf PosInf = True"
| "js_lt (Fin a) PosInf = True"
| "js_lt _ _ = False"

definition js_gt :: "jsnum \<Rightarrow> jsnum \<Rightarrow> bool" where
  "js_gt a b = js_lt b a"

definition js_le :: "jsnum \<Rightarrow> jsnum \<Rightarrow> bool" where
  "js_le a b = (\<not> isNaN a \<and> \<not> isNaN b \<and> \<not> js_lt b a)"

fun js_add :: "jsnum \<Rightarrow> jsnum \<Rightarrow> jsnum" where
  "js_add NaN _ = NaN"
| "js_add _ NaN = NaN"
| "js_add (Fin a) (Fin b) = Fin (a + b)"
| "js_add PosInf NegInf = NaN"
| "js_add NegInf PosInf = NaN"
| "js_add PosInf _ = PosInf"
| "js_add _ PosInf = PosInf"
| "js_add NegInf _ = NegInf"
| "js_add _ NegInf = NegInf"

definition js_sub :: "jsnum \<Rightarrow> jsnum \<Rightarrow> jsnum" where
  "js_sub a b = js_add a (js_neg b)"

text \<open>The sign of a number that is not NaN: \<open>-1\<close>, \<open>0\<close> or \<open>1\<close>.\<close>

fun js_sign :: "jsnum \<Rightarrow> int" where
  "js_sign NegInf = -1"
| "js_sign PosInf = 1"
| "js_sign (Fin q) = (if q < 0 then -1 else if q = 0 then 0 else 1)"
| "js_sign NaN = 0"

definition signedInf :: "int \<Rightarrow> jsnum" where
  "signedInf s = (if s = 0 then NaN else if s < 0 then NegInf else PosInf)"

fun js_mul :: "jsnum \<Rightarrow> jsnum \<Rightarrow> jsnum" where
  "js_mul NaN _ = NaN"
| "js_mul _ NaN = NaN"
| "js_mul (Fin a) (Fin b) = Fin (a * b)"
| "js_mul a b = signedInf (js_sign a * js_sign b)"

fun js_div :: "jsnum \<Rightarrow> jsnum \<Rightarrow> jsnum" where
  "js_div NaN _ = NaN"
| "js_div _ NaN = NaN"
| "js_div (Fin a) (Fin b) = (if b = 0 then signedInf (js_sign (Fin a)) else Fin (a / b))"
| "js_div (Fin a) _ = Fin 0"
| "js_div a (Fin b) = signedInf (js_sign a * (if b < 0 then -1 else 1))"
| "js_div _ _ = NaN"

text \<open>
  The position of a number on the extended number line, as a key in a linear order
  (NaN, which no comparison orders, is put last).
\<close>

fun numKey :: "jsnum \<Rightarrow> int \<times> rat" where
  "numKey NegInf = (-1, 0)"
| "numKey (Fin q) = (0, q)"
| "numKey PosInf = (1, 0)"
| "numKey NaN = (2, 0)"

section \<open>JavaScript strings\<close>

text \<open>
  Strings are lists of 8-bit characters, so the model covers ASCII text; the white space
  and the letters outside ASCII are not modelled.
\<close>

definition isSpace :: "char \<Rightarrow> bool" where
  "isSpace c = ((of_char c :: int) \<in> {9, 10, 11, 12, 13, 32})"

definition isDigit :: "char \<Rightarrow> bool" where
  "isDigit c = (48 \<le> (of_char c :: int) \<and> (of_char c :: int) \<le> 57)"

definition isQuote :: "char \<Rightarrow> bool" where
  "isQuote c = (c = CHR 0x22 \<or> c = CHR 0x27)"

definition trimStart :: "string \<Rightarrow> string" where
  "trimStart s = dropWhile isSpace s"

definition trim :: "string \<Rightarrow> string" where
  "trim s = rev (dropWhile isSpace (rev (dropWhile isSpace s)))"

definition lowerChar :: "char \<Rightarrow> char" where
  "lowerChar c = (if 65 \<le> (of_char c :: int) \<and> (of_char c :: int) \<le> 90
                  then char_of (of_char c + 32 :: int) else c)"

definition toLowerCase :: "string \<Rightarrow> string" where
  "toLowerCase s = map lowerChar s"

text \<open>\<open>s.split(c)\<close> for a one-character separator: never empty, \<open>''''\<close> gives \<open>['''']\<close>.\<close>

fun split :: "char \<Rightarrow> string \<Rightarrow> string list" where
  "split c [] = [[]]"
| "split c (x # xs) =
     (if x = c then [] # split c xs
      else (case split c xs of [] \<Rightarrow> [[x]] | w # ws \<Rightarrow> (x # w) # ws))"


text \<open>\<open>s.includes(sub)\<close>: \<open>sub\<close> occurs in \<open>s\<close> as a contiguous substring.\<close>

fun includesStr :: "string \<Rightarrow> string \<Rightarrow> bool" where
  "includesStr [] sub = (sub = [])"
| "includesStr (x # xs) sub = (take (length sub) (x # xs) = sub \<or> includesStr xs sub)"

text \<open>\<open>s.replace(' ', 'T')\<close> with string arguments replaces the first occurrence only.\<close>

fun replaceFirst :: "char \<Rightarrow> char \<Rightarrow> string \<Rightarrow> string" where
  "replaceFirst a b [] = []"
| "replaceFirst a b (x # xs) = (if x = a then b # xs else x # replaceFirst a b xs)"

text \<open>
  \<open>s.replace(/^["']|["']$/g, '')\<close>: one quote character is removed at the start and one
  at the end of what then remains.
\<close>

definition stripQuotes :: "string \<Rightarrow> string" where
  "stripQuotes s =
     (let s1 = (case s of [] \<Rightarrow> [] | c # r \<Rightarrow> if isQuote c then r else s)
      in if s1 \<noteq> [] \<and> isQuote (last s1) then butlast s1 else s1)"

text \<open>\<open>s.match(/^\d+\.?\d*$/)\<close>: digits, at least one, then optionally a dot and digits.\<close>

definition matchesNumeric :: "string \<Rightarrow> bool" where
  "matchesNumeric s =
     (let r = dropWhile isDigit s
      in takeWhile isDigit s \<noteq> [] \<and>
         (case r of [] \<Rightarrow> True | c # r' \<Rightarrow> c = CHR ''.'' \<and> dropWhile isDigit r' = []))"

text \<open>\<open>xs.findIndex(p)\<close>: the first index whose element satisfies \<open>p\<close>, or \<open>-1\<close>.\<close>

fun findIndex :: "('a \<Rightarrow> bool) \<Rightarrow> 'a list \<Rightarrow> int" where
  "findIndex p [] = -1"
| "findIndex p (x # xs) =
     (if p x then 0 else (let i = findIndex p xs in if i = -1 then -1 else i + 1))"

text \<open>\<open>xs[i]\<close>: \<open>undefined\<close> (here \<open>None\<close>) outside the array.\<close>

definition elemAt :: "'a list \<Rightarrow> int \<Rightarrow> 'a option" where
  "elemAt xs i = (if 0 \<le> i \<and> i < int (length xs) then Some (xs ! nat i) else None)"

section \<open>Reading and printing numbers\<close>

text \<open>
  Digit strings are read into \<open>int\<close> and printed from it: only values from \<open>0\<close> up occur.
\<close>

definition digitVal :: "char \<Rightarrow> int" where
  "digitVal c = of_char c - 48"

definition digitsVal :: "string \<Rightarrow> int" where
  "digitsVal ds = foldl (\<lambda>a c. 10 * a + digitVal c) 0 ds"

definition scale10 :: "rat \<Rightarrow> int \<Rightarrow> rat" where
  "scale10 m e = (if 0 \<le> e then m * 10 ^ nat e else m / 10 ^ nat (- e))"

text \<open>
  The exponent part at the head of a string (\<open>e\<close> or \<open>E\<close>, an optional sign, digits)
  and what follows it; without digits there is no exponent part and nothing is consumed.
\<close>

definition parseExponent :: "string \<Rightarrow> int \<times> string" where
  "parseExponent s =
     (case s of
        [] \<Rightarrow> (0, s)
      | c # r \<Rightarrow>
          if c = CHR ''e'' \<or> c = CHR ''E'' then
            (case r of
               [] \<Rightarrow> (0, s)
             | d # r' \<Rightarrow>
                 if d = CHR ''-'' \<and> takeWhile isDigit r' \<noteq> []
                   then (- digitsVal (takeWhile isDigit r'), dropWhile isDigit r')
                 else if d = CHR ''+'' \<and> takeWhile isDigit r' \<noteq> []
                   then (digitsVal (takeWhile isDigit r'), dropWhile isDigit r')
                 else if takeWhile isDigit r \<noteq> []
                   then (digitsVal (takeWhile isDigit r), dropWhile isDigit r)
                 else (0, s))
          else (0, s))"

text \<open>
  The longest prefix that is an unsigned decimal literal (\<open>Infinity\<close>, or digits with an
  optional fraction and exponent), its value, and the rest of the string; NaN when no
  prefix is a literal.
\<close>

definition parseUnsigned :: "string \<Rightarrow> jsnum \<times> string" where
  "parseUnsigned s =
     (if take 8 s = ''Infinity'' then (PosInf, drop 8 s)
      else
        (let ip = takeWhile isDigit s;
             r1 = dropWhile isDigit s;
             hasDot = (case r1 of [] \<Rightarrow> False | c # r \<Rightarrow> c = CHR ''.'');
             fp = (if hasDot then takeWhile isDigit (tl r1) else []);
             r2 = (if hasDot then dropWhile isDigit (tl r1) else r1)
         in if ip = [] \<and> fp = [] then (NaN, s)
            else (let (e, r3) = parseExponent r2
                  in (Fin (scale10 (of_int (digitsVal (ip @ fp)) / 10 ^ length fp) e), r3))))"

definition parseSigned :: "string \<Rightarrow> jsnum \<times> string" where
  "parseSigned s =
     (case s of
        [] \<Rightarrow> (NaN, s)
      | c # r \<Rightarrow>
          if c = CHR ''-'' then (let (v, r') = parseUnsigned r in (js_neg v, r'))
          else if c = CHR ''+'' then parseUnsigned r
          else parseUnsigned s)"

text \<open>\<open>parseFloat(s)\<close>: leading white space is skipped, trailing text is ignored.\<close>

definition parseFloat :: "string \<Rightarrow> jsnum" where
  "parseFloat s = fst (parseSigned (trimStart s))"

text \<open>\<open>parseFloat(undefined)\<close> reads the text \<open>undefined\<close>, which is NaN.\<close>

definition parseFloatCell :: "string option \<Rightarrow> jsnum" where
  "parseFloatCell c = (case c of None \<Rightarrow> NaN | Some s \<Rightarrow> parseFloat s)"

text \<open>
  \<open>Number(s)\<close> for decimal text: the whole trimmed string must be one literal, and the
  empty string is \<open>0\<close>. (Hexadecimal, octal and binary literals are not modelled.)
\<close>

definition Number :: "string \<Rightarrow> jsnum" where
  "Number s =
     (let t = trim s
      in if t = [] then Fin 0
         else (case parseSigned t of (v, r) \<Rightarrow> if r = [] then v else NaN))"

definition digitChar :: "int \<Rightarrow> char" where
  "digitChar d = char_of (48 + d)"

function showNat :: "int \<Rightarrow> string" where
  "showNat n = (if n < 10 then [digitChar n] else showNat (n div 10) @ [digitChar (n mod 10)])"
  by pat_completeness auto
termination
  by (relation "measure nat") auto

declare showNat.simps [simp del]

definition padLeft :: "nat \<Rightarrow> string \<Rightarrow> string" where
  "padLeft n ds = replicate (n - length ds) (CHR ''0'') @ ds"

text \<open>
  The number of fractional decimal digits of a non-negative rational, looked for up to
  \<open>fuel\<close> places. Numbers read from decimal text have finitely many.
\<close>

fun fracLen :: "nat \<Rightarrow> rat \<Rightarrow> nat" where
  "fracLen 0 q = 0"
| "fracLen (Suc fuel) q = (if of_int \<lfloor>q\<rfloor> = q then 0 else Suc (fracLen fuel (q * 10)))"

fun stripZeros :: "nat \<Rightarrow> int \<Rightarrow> int" where
  "stripZeros 0 n = n"
| "stripZeros (Suc fuel) n = (if n \<noteq> 0 \<and> n mod 10 = 0 then stripZeros fuel (n div 10) else n)"

text \<open>
  \<open>String(x)\<close> (Number::toString, radix 10) of a positive finite value: with \<open>s\<close> the
  significant digits and \<open>n\<close> the position of the decimal point, positional notation
  when \<open>-6 < n \<le> 21\<close> and exponent notation otherwise.
\<close>

definition showPositive :: "rat \<Rightarrow> string" where
  "showPositive q =
     (let e = fracLen 40 q;
          N = \<lfloor>q * 10 ^ e\<rfloor>;
          ds = showNat (stripZeros 400 N);
          n = int (length (showNat N)) - int e
      in if -6 < n \<and> n \<le> 21 then
           showNat \<lfloor>q\<rfloor> @ (if e = 0 then [] else CHR ''.'' # padLeft e (showNat (N mod 10 ^ e)))
         else
           take 1 ds @ (if length ds = 1 then [] else CHR ''.'' # drop 1 ds) @ ''e'' @
           (if 0 \<le> n - 1 then ''+'' else ''-'') @ showNat \<bar>n - 1\<bar>)"

fun numToString :: "jsnum \<Rightarrow> string" where
  "numToString NaN = ''NaN''"
| "numToString PosInf = ''Infinity''"
| "numToString NegInf = ''-Infinity''"
| "numToString (Fin q) =
     (if q = 0 then ''0'' else if q < 0 then ''-'' @ showPositive (- q) else showPositive q)"

text \<open>
  \<open>x.toFixed(f)\<close>: the decimal text of the integer \<open>n\<close> for which \<open>n / 10^f\<close> is closest
  to \<open>|x|\<close> (the larger \<open>n\<close> when two are equally close), with the decimal point \<open>f\<close>
  digits from the right and a minus sign when \<open>x < 0\<close>; \<open>String(x)\<close> when \<open>x\<close> is not
  finite or \<open>|x| \<ge> 10^21\<close>.
\<close>

definition toFixed :: "nat \<Rightarrow> jsnum \<Rightarrow> string" where
  "toFixed f x =
     (case x of
        Fin q \<Rightarrow>
          if 10 ^ 21 \<le> \<bar>q\<bar> then numToString x
          else
            (let n = \<lfloor>\<bar>q\<bar> * 10 ^ f + 1 / 2\<rfloor>;
                 ds = padLeft (f + 1) (showNat n);
                 k = length ds - f
             in (if q < 0 then ''-'' else []) @ take k ds @
                (if f = 0 then [] else CHR ''.'' # drop k ds))
      | _ \<Rightarrow> numToString x)"

section \<open>Records of the analyzer\<close>

record ShopifyData =
  sessionId :: string
  orderId :: "string option"
  successRate :: jsnum
  timestamp :: "string option"

record AWSData =
  sessionId :: string
  sessionLength :: jsnum
  userId :: "string option"
  timestamp :: "string option"

record FusedDataPoint =
  sessionId :: string
  sessionLength :: jsnum
  successRate :: jsnum
  sessionNumber :: nat

text \<open>
  The three errors the parsers throw, told apart by their message: too few lines
  (\<open>must have at least a header row and one data row\<close>), a required column that no header
  matches (the message lists the headers found), and no valid data row
  (\<open>No valid ... data rows found in CSV\<close>).
\<close>

datatype parse_error = MalformedInput | MissingColumns "string list" | EmptyResult

section \<open>Splitting a CSV text\<close>

definition newline :: char where
  "newline = CHR 0x0A"

definition comma :: char where
  "comma = CHR '',''"

text \<open>\<open>csvText.trim().split('\n')\<close>\<close>

definition csvLines :: "string \<Rightarrow> string list" where
  "csvLines csvText = split newline (trim csvText)"

text \<open>\<open>lines[0].split(',').map(h => h.trim().toLowerCase())\<close>\<close>

definition csvHeaders :: "string list \<Rightarrow> string list" where
  "csvHeaders lines = map (\<lambda>h. toLowerCase (trim h)) (split comma (hd lines))"

text \<open>\<open>lines[i].split(',').map(v => v.trim().replace(/^["']|["']$/g, ''))\<close>\<close>

definition csvValues :: "string \<Rightarrow> string list" where
  "csvValues line = map (\<lambda>v. stripQuotes (trim v)) (split comma line)"

section \<open>Column matching of \<open>src/components/SessionAnalyzer.tsx\<close>\<close>

definition isSessionIdHeader :: "string \<Rightarrow> bool" where
  "isSessionIdHeader h =
     (h = ''session_id'' \<or> h = ''sessionid'' \<or> h = ''session-id'' \<or>
      (includesStr h ''session'' \<and> includesStr h ''id''))"

definition isOrderIdHeader :: "string \<Rightarrow> bool" where
  "isOrderIdHeader h =
     (h = ''order_id'' \<or> h = ''orderid'' \<or> h = ''order-id'' \<or>
      (includesStr h ''order'' \<and> includesStr h ''id''))"

definition isSuccessRateHeader :: "string \<Rightarrow> bool" where
  "isSuccessRateHeader h =
     (h = ''success_rate'' \<or> h = ''successrate'' \<or> h = ''success-rate'' \<or>
      h = ''success_percent'' \<or> h = ''success_percentage'' \<or>
      (includesStr h ''success'' \<and> (includesStr h ''rate'' \<or> includesStr h ''percent'')))"

definition isTimestampHeader :: "string \<Rightarrow> bool" where
  "isTimestampHeader h =
     (includesStr h ''timestamp'' \<or> includesStr h ''date'' \<or> includesStr h ''time'')"

definition isSessionLengthHeader :: "string \<Rightarrow> bool" where
  "isSessionLengthHeader h =
     (h = ''session_length'' \<or> h = ''sessionlength'' \<or> h = ''session-length'' \<or>
      h = ''session_duration'' \<or> h = ''duration'' \<or>
      (includesStr h ''session'' \<and> (includesStr h ''length'' \<or> includesStr h ''duration'')))"

definition isUserIdHeader :: "string \<Rightarrow> bool" where
  "isUserIdHeader h =
     (h = ''user_id'' \<or> h = ''userid'' \<or> h = ''user-id'' \<or>
      (includesStr h ''user'' \<and> includesStr h ''id''))"

section \<open>The success-source parser\<close>

text \<open>\<open>idx >= 0 ? values[idx] : undefined\<close>\<close>

definition optionalCell :: "string list \<Rightarrow> int \<Rightarrow> string option" where
  "optionalCell values idx = (if 0 \<le> idx then elemAt values idx else None)"

text \<open>
  The conversion of a parsed success rate: a value of at most \<open>1\<close> is taken as a fraction
  and multiplied by \<open>100\<close>. The row rounds the result when it stores it.
\<close>

definition normalizeSuccessRate :: "jsnum \<Rightarrow> jsnum" where
  "normalizeSuccessRate rate =
     (if js_le rate (Fin 1) then js_mul rate (Fin 100) else rate)"

text \<open>
  The body of the row loop of \<open>parseShopifyCSV\<close>: the record the row adds to \<open>data\<close>,
  or \<open>None\<close> when the row is skipped.
\<close>

definition shopifyRow :: "int \<Rightarrow> int \<Rightarrow> int \<Rightarrow> int \<Rightarrow> string \<Rightarrow> ShopifyData option" where
  "shopifyRow sessionIdIndex orderIdIndex successRateIndex timestampIndex line =
     (let values = csvValues line
      in if length values < 2 then None
         else
           (let sessionId = elemAt values sessionIdIndex;
                successRateStr = elemAt values successRateIndex;
                successRate = parseFloatCell successRateStr
            in case sessionId of
                 None \<Rightarrow> None
               | Some sid \<Rightarrow>
                   if sid \<noteq> [] \<and> \<not> isNaN successRate then
                     Some \<lparr> ShopifyData.sessionId = sid,
                            orderId = optionalCell values orderIdIndex,
                            successRate = Number (toFixed 2 (normalizeSuccessRate successRate)),
                            timestamp = optionalCell values timestampIndex \<rparr>
                   else None))"

text \<open>The loop \<open>for (let i = 1; i < lines.length; i++)\<close> over the data lines.\<close>

fun collectRows :: "(string \<Rightarrow> 'r option) \<Rightarrow> string list \<Rightarrow> 'r list \<Rightarrow> 'r list" where
  "collectRows row [] data = data"
| "collectRows row (l # ls) data =
     collectRows row ls (case row l of None \<Rightarrow> data | Some r \<Rightarrow> data @ [r])"

definition parseShopifyCSV :: "string \<Rightarrow> parse_error + ShopifyData list" where
  "parseShopifyCSV csvText =
     (let lines = csvLines csvText
      in if length lines < 2 then Inl MalformedInput
         else
           (let headers = csvHeaders lines;
                sessionIdIndex = findIndex isSessionIdHeader headers;
                orderIdIndex = findIndex isOrderIdHeader headers;
                successRateIndex = findIndex isSuccessRateHeader headers;
                timestampIndex = findIndex isTimestampHeader headers
            in if sessionIdIndex = -1 \<or> successRateIndex = -1 then Inl (MissingColumns headers)
               else
                 (let data = collectRows
                        (shopifyRow sessionIdIndex orderIdIndex successRateIndex timestampIndex)
                        (tl lines) []
                  in if length data = 0 then Inl EmptyResult else Inr data)))"

section \<open>The duration-source parser\<close>

text \<open>The parser of \<open>src/components/SessionAnalyzer.tsx\<close>, which reads a duration column.\<close>

definition awsRow :: "int \<Rightarrow> int \<Rightarrow> int \<Rightarrow> int \<Rightarrow> string \<Rightarrow> AWSData option" where
  "awsRow sessionIdIndex sessionLengthIndex userIdIndex timestampIndex line =
     (let values = csvValues line
      in if length values < 2 then None
         else
           (let sessionId = elemAt values sessionIdIndex;
                sessionLength = parseFloatCell (elemAt values sessionLengthIndex)
            in case sessionId of
                 None \<Rightarrow> None
               | Some sid \<Rightarrow>
                   if sid \<noteq> [] \<and> \<not> isNaN sessionLength then
                     Some \<lparr> AWSData.sessionId = sid,
                            sessionLength = sessionLength,
                            userId = optionalCell values userIdIndex,
                            timestamp = optionalCell values timestampIndex \<rparr>
                   else None))"

definition parseAWSCSV :: "string \<Rightarrow> parse_error + AWSData list" where
  "parseAWSCSV csvText =
     (let lines = csvLines csvText
      in if length lines < 2 then Inl MalformedInput
         else
           (let headers = csvHeaders lines;
                sessionIdIndex = findIndex isSessionIdHeader headers;
                sessionLengthIndex = findIndex isSessionLengthHeader headers;
                userIdIndex = findIndex isUserIdHeader headers;
                timestampIndex = findIndex isTimestampHeader headers
            in if sessionIdIndex = -1 \<or> sessionLengthIndex = -1 then Inl (MissingColumns headers)
               else
                 (let data = collectRows
                        (awsRow sessionIdIndex sessionLengthIndex userIdIndex timestampIndex)
                        (tl lines) []
                  in if length data = 0 then Inl EmptyResult else Inr data)))"

section \<open>The duration-source parser with timestamp columns\<close>

text \<open>
  A second version of the component keeps \<open>parseShopifyCSV\<close>'s row loop as above and
  extends \<open>parseAWSCSV\<close>: the duration is read from a duration column or, without
  one, computed from a start and an end timestamp; a duration must be positive, and it is
  stored rounded to two decimals. It is modelled under the name \<open>parseAWSCSV_timestamps\<close>.
\<close>

definition isSessionIdHeaderTs :: "string \<Rightarrow> bool" where
  "isSessionIdHeaderTs h =
     (h = ''session_id'' \<or> h = ''sessionid'' \<or> h = ''session-id'' \<or>
      (includesStr h ''session'' \<and> includesStr h ''id'') \<or>
      h = ''session'' \<or> h = ''id'')"

definition isSessionLengthHeaderTs :: "string \<Rightarrow> bool" where
  "isSessionLengthHeaderTs h =
     (h = ''session_length'' \<or> h = ''sessionlength'' \<or> h = ''session-length'' \<or>
      h = ''session_duration'' \<or> h = ''duration'' \<or> h = ''length'' \<or>
      (includesStr h ''session'' \<and> (includesStr h ''length'' \<or> includesStr h ''duration'')) \<or>
      includesStr h ''duration'' \<or> includesStr h ''length'')"

definition isStartTimestampHeader :: "string \<Rightarrow> bool" where
  "isStartTimestampHeader h =
     ((includesStr h ''start'' \<and> (includesStr h ''timestamp'' \<or> includesStr h ''time'')) \<or>
      h = ''start_timestamp'' \<or> h = ''starttime'' \<or> h = ''start_time'' \<or>
      h = ''start'' \<or> h = ''begin_timestamp'' \<or> h = ''begin_time'')"

definition isEndTimestampHeader :: "string \<Rightarrow> bool" where
  "isEndTimestampHeader h =
     ((includesStr h ''end'' \<and> (includesStr h ''timestamp'' \<or> includesStr h ''time'')) \<or>
      h = ''end_timestamp'' \<or> h = ''endtime'' \<or> h = ''end_time'' \<or>
      h = ''end'' \<or> h = ''finish_timestamp'' \<or> h = ''finish_time'')"

definition isUserIdHeaderTs :: "string \<Rightarrow> bool" where
  "isUserIdHeaderTs h =
     (h = ''user_id'' \<or> h = ''userid'' \<or> h = ''user-id'' \<or>
      (includesStr h ''user'' \<and> includesStr h ''id'') \<or> h = ''user'')"

text \<open>\<open>t.includes('T') ? t : t.replace(' ', 'T')\<close>\<close>

definition normalizeIso :: "string \<Rightarrow> string" where
  "normalizeIso t = (if includesStr t ''T'' then t else replaceFirst (CHR '' '') (CHR ''T'') t)"

text \<open>
  The \<open>try\<close> block that computes a duration from the start and the end cell. The result
  is \<open>None\<close> when the block throws, which makes the loop skip the row. \<open>dateParse\<close> stands
  for \<open>new Date(s).getTime()\<close>, the milliseconds of a date-time text or NaN; it is a
  parameter. An \<open>undefined\<close> cell reads as NaN and then fails in \<open>.includes\<close>.
\<close>

definition timestampLength :: "(string \<Rightarrow> jsnum) \<Rightarrow> string option \<Rightarrow> string option \<Rightarrow> jsnum option" where
  "timestampLength dateParse startCell endCell =
     (case (startCell, endCell) of
        (Some startTime, Some endTime) \<Rightarrow>
          (let startNum = parseFloat startTime;
               endNum = parseFloat endTime;
               ms =
                 (if \<not> isNaN startNum \<and> \<not> isNaN endNum \<and>
                     matchesNumeric startTime \<and> matchesNumeric endTime
                  then
                    (if js_lt startNum (Fin (10 ^ 10))
                     then Some (js_mul startNum (Fin 1000), js_mul endNum (Fin 1000))
                     else Some (startNum, endNum))
                  else
                    (let start = dateParse (normalizeIso startTime);
                         end' = dateParse (normalizeIso endTime)
                     in if isNaN start \<or> isNaN end' then None else Some (start, end')))
           in case ms of
                None \<Rightarrow> None
              | Some (startMs, endMs) \<Rightarrow>
                  if isNaN startMs \<or> isNaN endMs then None
                  else Some (js_div (js_sub endMs startMs) (Fin 1000)))
      | _ \<Rightarrow> None)"

text \<open>
  The value of \<open>sessionLength\<close> before the row guard: read from the duration column when
  there is one, computed from the timestamps otherwise; \<open>None\<close> when the computation
  throws.
\<close>

definition rowDuration :: "(string \<Rightarrow> jsnum) \<Rightarrow> int \<Rightarrow> int \<Rightarrow> int \<Rightarrow> string list \<Rightarrow> jsnum option" where
  "rowDuration dateParse sessionLengthIndex startTimestampIndex endTimestampIndex values =
     (if 0 \<le> sessionLengthIndex
      then Some (parseFloatCell (elemAt values sessionLengthIndex))
      else timestampLength dateParse (elemAt values startTimestampIndex)
                                     (elemAt values endTimestampIndex))"

definition awsRowTs ::
  "(string \<Rightarrow> jsnum) \<Rightarrow> int \<Rightarrow> int \<Rightarrow> int \<Rightarrow> int \<Rightarrow> int \<Rightarrow> int \<Rightarrow> string \<Rightarrow> AWSData option" where
  "awsRowTs dateParse sessionIdIndex sessionLengthIndex startTimestampIndex endTimestampIndex
            userIdIndex timestampIndex line =
     (let values = csvValues line
      in if length values < 2 then None
         else
           (let sessionId = elemAt values sessionIdIndex;
                computed = rowDuration dateParse sessionLengthIndex startTimestampIndex
                             endTimestampIndex values
            in case computed of
                 None \<Rightarrow> None
               | Some len \<Rightarrow>
                   (case sessionId of
                      None \<Rightarrow> None
                    | Some sid \<Rightarrow>
                        if sid \<noteq> [] \<and> \<not> isNaN len \<and> js_gt len (Fin 0) then
                          Some \<lparr> AWSData.sessionId = sid,
                                 sessionLength = Number (toFixed 2 len),
                                 userId = optionalCell values userIdIndex,
                                 timestamp = optionalCell values timestampIndex \<rparr>
                        else None)))"

definition parseAWSCSV_timestamps :: "(string \<Rightarrow> jsnum) \<Rightarrow> string \<Rightarrow> parse_error + AWSData list" where
  "parseAWSCSV_timestamps dateParse csvText =
     (let lines = csvLines csvText
      in if length lines < 2 then Inl MalformedInput
         else
           (let headers = csvHeaders lines;
                sessionIdIndex = findIndex isSessionIdHeaderTs headers;
                sessionLengthIndex = findIndex isSessionLengthHeaderTs headers;
                startTimestampIndex =
                  (if sessionLengthIndex = -1 then findIndex isStartTimestampHeader headers else -1);
                endTimestampIndex =
                  (if sessionLengthIndex = -1 then findIndex isEndTimestampHeader headers else -1);
                userIdIndex = findIndex isUserIdHeaderTs headers;
                timestampIndex = findIndex isTimestampHeader headers
            in if sessionIdIndex = -1 \<or>
                  (sessionLengthIndex = -1 \<and> (startTimestampIndex = -1 \<or> endTimestampIndex = -1))
               then Inl (MissingColumns headers)
               else
                 (let data = collectRows
                        (awsRowTs dateParse sessionIdIndex sessionLengthIndex startTimestampIndex
                           endTimestampIndex userIdIndex timestampIndex)
                        (tl lines) []
                  in if length data = 0 then Inl EmptyResult else Inr data)))"

section \<open>Fusion\<close>

text \<open>
  \<open>xs.sort(cmp)\<close>: ECMAScript requires a stable sort and reads a comparator result that is
  NaN as \<open>0\<close>. For a comparator that orders the array consistently the result is fixed by
  that; it is computed here by stable insertion, an element moving behind another exactly
  when the comparator's value for the pair is positive.
\<close>

fun insertBy :: "('a \<Rightarrow> 'a \<Rightarrow> jsnum) \<Rightarrow> 'a \<Rightarrow> 'a list \<Rightarrow> 'a list" where
  "insertBy cmp x [] = [x]"
| "insertBy cmp x (y # ys) =
     (if js_gt (cmp x y) (Fin 0) then y # insertBy cmp x ys else x # y # ys)"

definition jsSort :: "('a \<Rightarrow> 'a \<Rightarrow> jsnum) \<Rightarrow> 'a list \<Rightarrow> 'a list" where
  "jsSort cmp xs = foldr (insertBy cmp) xs []"

text \<open>\<open>awsData.forEach(aws => awsMap.set(aws.sessionId, aws))\<close>\<close>

definition buildAwsMap :: "AWSData list \<Rightarrow> (string \<rightharpoonup> AWSData)" where
  "buildAwsMap awsData = foldl (\<lambda>m aws. m(AWSData.sessionId aws \<mapsto> aws)) Map.empty awsData"

text \<open>
  The \<open>forEach\<close> over the success records: the state is the list \<open>fused\<close> and
  \<open>sessionCounter\<close>.
\<close>

fun matchLoop ::
  "(string \<rightharpoonup> AWSData) \<Rightarrow> ShopifyData list \<Rightarrow> FusedDataPoint list \<times> nat \<Rightarrow> FusedDataPoint list \<times> nat" where
  "matchLoop awsMap [] st = st"
| "matchLoop awsMap (shopify # rest) (fused, sessionCounter) =
     matchLoop awsMap rest
       (case awsMap (ShopifyData.sessionId shopify) of
          None \<Rightarrow> (fused, sessionCounter)
        | Some awsMatch \<Rightarrow>
            (fused @ [\<lparr> FusedDataPoint.sessionId = ShopifyData.sessionId shopify,
                        sessionLength = AWSData.sessionLength awsMatch,
                        successRate = ShopifyData.successRate shopify,
                        sessionNumber = sessionCounter \<rparr>],
             sessionCounter + 1))"

definition fuseData :: "ShopifyData list \<Rightarrow> AWSData list \<Rightarrow> FusedDataPoint list" where
  "fuseData shopifyData awsData =
     (if length shopifyData = 0 \<or> length awsData = 0 then []
      else
        (let awsMap = buildAwsMap awsData;
             fused = fst (matchLoop awsMap shopifyData ([], 1))
         in jsSort (\<lambda>a b. js_sub (FusedDataPoint.sessionLength a) (FusedDataPoint.sessionLength b))
              fused))"

section \<open>The fusion report\<close>







section \<open>Export\<close>



section \<open>The join as the specification describes it\<close>

text \<open>
  The specification's fuser: an index on the duration records by session id in which a
  later record replaces an earlier one with the same id, a scan of the success records in
  their order that emits a fused record on every hit, numbered in the order of emission,
  and a stable sort by duration of what was emitted.
\<close>

definition lookupLast :: "AWSData list \<Rightarrow> string \<Rightarrow> AWSData option" where
  "lookupLast awsData sid = find (\<lambda>aws. AWSData.sessionId aws = sid) (rev awsData)"

definition joinPairs :: "ShopifyData list \<Rightarrow> AWSData list \<Rightarrow> (ShopifyData \<times> AWSData) list" where
  "joinPairs shopifyData awsData =
     List.map_filter
       (\<lambda>s. map_option (Pair s) (lookupLast awsData (ShopifyData.sessionId s))) shopifyData"

definition fusedRecord :: "nat \<times> ShopifyData \<times> AWSData \<Rightarrow> FusedDataPoint" where
  "fusedRecord x =
     (case x of (i, s, d) \<Rightarrow>
        \<lparr> FusedDataPoint.sessionId = ShopifyData.sessionId s,
          sessionLength = AWSData.sessionLength d,
          successRate = ShopifyData.successRate s,
          sessionNumber = i \<rparr>)"

definition innerJoin :: "ShopifyData list \<Rightarrow> AWSData list \<Rightarrow> FusedDataPoint list" where
  "innerJoin shopifyData awsData = map fusedRecord (enumerate 1 (joinPairs shopifyData awsData))"

definition durationKey :: "FusedDataPoint \<Rightarrow> int \<times> rat" where
  "durationKey p = numKey (FusedDataPoint.sessionLength p)"

section \<open>Example data\<close>

definition exShopify :: "ShopifyData list" where
  "exShopify =
     [\<lparr> ShopifyData.sessionId = ''a'', orderId = None, successRate = Fin 90, timestamp = None \<rparr>,
      \<lparr> ShopifyData.sessionId = ''b'', orderId = None, successRate = Fin 40, timestamp = None \<rparr>,
      \<lparr> ShopifyData.sessionId = ''c'', orderId = None, successRate = Fin 70, timestamp = None \<rparr>,
      \<lparr> ShopifyData.sessionId = ''x'', orderId = None, successRate = Fin 10, timestamp = None \<rparr>]"

definition exAws :: "AWSData list" where
  "exAws =
     [\<lparr> AWSData.sessionId = ''b'', sessionLength = Fin 5, userId = None, timestamp = None \<rparr>,
      \<lparr> AWSData.sessionId = ''a'', sessionLength = Fin 9, userId = None, timestamp = None \<rparr>,
      \<lparr> AWSData.sessionId = ''c'', sessionLength = Fin 5, userId = None, timestamp = None \<rparr>,
      \<lparr> AWSData.sessionId = ''a'', sessionLength = PosInf, userId = None, timestamp = None \<rparr>,
      \<lparr> AWSData.sessionId = ''z'', sessionLength = Fin 1, userId = None, timestamp = None \<rparr>]"

definition dupShopifyText :: string where
  "dupShopifyText = ''session_id,success_rate'' @ [newline] @ ''a,90'' @ [newline] @ ''a,40''"

definition oneAwsText :: string where
  "oneAwsText = ''session_id,session_length'' @ [newline] @ ''a,2''"

definition dupShopify :: "ShopifyData list" where
  "dupShopify =
     [\<lparr> ShopifyData.sessionId = ''a'', orderId = None, successRate = Fin 90, timestamp = None \<rparr>,
      \<lparr> ShopifyData.sessionId = ''a'', orderId = None, successRate = Fin 40, timestamp = None \<rparr>]"

definition oneAws :: "AWSData list" where
  "oneAws = [\<lparr> AWSData.sessionId = ''a'', sessionLength = Fin 2, userId = None, timestamp = None \<rparr>]"

definition headerOnlyText :: string where
  "headerOnlyText = ''session_id,success_rate''"

definition noValidRowText :: string where
  "noValidRowText = ''Session ID,Success Rate'' @ [newline] @ '',5'' @ [newline] @ ''s2,n/a''"

definition exShopifyText :: string where
  "exShopifyText = ''session_id,success_rate'' @ [newline] @ ''s1,0.9'' @ [newline] @ '',0.5'' @ [newline] @ ''s2,40''"

definition exAwsText :: string where
  "exAwsText = ''session_id,session_length'' @ [newline] @ '',3'' @ [newline] @ ''s2,5.0'' @ [newline] @ ''s1,2.5''"

section \<open>Rounding to a fixed number of decimals\<close>


section \<open>The success-source row of the first version\<close>




section \<open>Example duration sources\<close>

definition zeroAndInfiniteText :: string where
  "zeroAndInfiniteText =
     ''session_id,duration'' @ [newline] @ ''s1,0.004'' @ [newline] @ ''s2,Infinity'' @ [newline] @
     ''s3,-5'' @ [newline] @ ''s4,2.5''"

definition nonPositiveText :: string where
  "nonPositiveText = ''session_id,session_length'' @ [newline] @ ''s1,-5'' @ [newline] @ ''s2,0''"


section \<open>Example sources for the report\<close>






section \<open>Records that survive an export\<close>














section \<open>Auxiliary facts\<close>

subsection \<open>Lines and rows\<close>

lemma length_split: "length (split c s) = Suc (length (filter (\<lambda>x. x = c) s))"
  by (induction s) (auto split: list.splits)

lemma split_single_line: "c \<notin> set s \<Longrightarrow> split c s = [s]"
  by (induction s) auto

lemma collectRows_eq: "collectRows row ls data = data @ List.map_filter row ls"
  by (induction ls arbitrary: data) (auto split: option.splits)

lemma set_map_filter_iff: "r \<in> set (List.map_filter f xs) \<longleftrightarrow> (\<exists>x \<in> set xs. f x = Some r)"
  by (induction xs) (auto split: option.splits)

lemma in_collectRows: "r \<in> set (collectRows row ls []) \<longleftrightarrow> (\<exists>l \<in> set ls. row l = Some r)"
  by (simp add: collectRows_eq set_map_filter_iff)

lemma parseShopifyCSV_rows:
  assumes "parseShopifyCSV t = Inr data" and "r \<in> set data"
  shows "\<exists>a b c d l. shopifyRow a b c d l = Some r"
proof -
  from assms obtain a b c d where "r \<in> set (collectRows (shopifyRow a b c d) (tl (csvLines t)) [])"
    unfolding parseShopifyCSV_def Let_def by (auto split: if_splits)
  then show ?thesis unfolding in_collectRows by blast
qed

lemma parseAWSCSV_rows:
  assumes "parseAWSCSV t = Inr data" and "r \<in> set data"
  shows "\<exists>a b c d l. awsRow a b c d l = Some r"
proof -
  from assms obtain a b c d where "r \<in> set (collectRows (awsRow a b c d) (tl (csvLines t)) [])"
    unfolding parseAWSCSV_def Let_def by (auto split: if_splits)
  then show ?thesis unfolding in_collectRows by blast
qed

lemma parseAWSCSV_timestamps_rows:
  assumes "parseAWSCSV_timestamps dp t = Inr data" and "r \<in> set data"
  shows "\<exists>a b c d e f l. awsRowTs dp a b c d e f l = Some r"
proof -
  from assms obtain a b c d e f where
    "r \<in> set (collectRows (awsRowTs dp a b c d e f) (tl (csvLines t)) [])"
    unfolding parseAWSCSV_timestamps_def Let_def by (auto split: if_splits)
  then show ?thesis unfolding in_collectRows by blast
qed

subsection \<open>The lookup map, the match loop and the sort\<close>

lemma buildAwsMap_fold:
  "foldl (\<lambda>m aws. m(AWSData.sessionId aws \<mapsto> aws)) m0 D sid =
     (case find (\<lambda>aws. AWSData.sessionId aws = sid) (rev D) of None \<Rightarrow> m0 sid | Some a \<Rightarrow> Some a)"
  by (induction D arbitrary: m0 rule: rev_induct) auto

lemma buildAwsMap_lookupLast: "buildAwsMap D sid = lookupLast D sid"
  by (simp add: buildAwsMap_def lookupLast_def buildAwsMap_fold split: option.splits)

lemma lookupLast_None: "lookupLast D sid = None \<longleftrightarrow> sid \<notin> AWSData.sessionId ` set D"
  by (auto simp: lookupLast_def find_None_iff)

lemma find_Some_set: "find P xs = Some x \<Longrightarrow> x \<in> set xs \<and> P x"
  by (induction xs) (auto split: if_splits)

lemma lookupLast_Some: "lookupLast D sid = Some d \<Longrightarrow> d \<in> set D \<and> AWSData.sessionId d = sid"
  using find_Some_set [of "\<lambda>aws. AWSData.sessionId aws = sid" "rev D" d]
  by (simp add: lookupLast_def)

lemma lookupLast_in_ids: "lookupLast D sid = Some d \<Longrightarrow> sid \<in> AWSData.sessionId ` set D"
  using lookupLast_Some [of D sid d] by force

lemma lookupLast_Some_iff: "(\<exists>d. lookupLast D sid = Some d) \<longleftrightarrow> sid \<in> AWSData.sessionId ` set D"
  using lookupLast_None [of D sid] by (cases "lookupLast D sid") auto

lemma map_filter_None: "List.map_filter (\<lambda>s. None) S = []"
  by (induction S) auto

lemma matchLoop_eq:
  "matchLoop (lookupLast D) S (acc, n) =
     (acc @ map fusedRecord (enumerate n (joinPairs S D)), n + length (joinPairs S D))"
proof (induction S arbitrary: acc n)
  case Nil
  show ?case by (simp add: joinPairs_def)
next
  case (Cons s S)
  show ?case
  proof (cases "lookupLast D (ShopifyData.sessionId s)")
    case None
    then show ?thesis using Cons.IH [of acc n] by (simp add: joinPairs_def)
  next
    case (Some d)
    then show ?thesis using Cons.IH [of "acc @ [fusedRecord (n, s, d)]" "Suc n"]
      by (simp add: joinPairs_def fusedRecord_def)
  qed
qed

lemma cmp_key:
  "\<not> isNaN a \<Longrightarrow> \<not> isNaN b \<Longrightarrow> js_gt (js_sub a b) (Fin 0) \<longleftrightarrow> \<not> numKey a \<le> numKey b"
  by (cases a; cases b) (auto simp: js_gt_def js_sub_def)

lemma js_le_key:
  "\<not> isNaN a \<Longrightarrow> \<not> isNaN b \<Longrightarrow> js_le a b \<longleftrightarrow> numKey a \<le> numKey b"
  by (cases a; cases b) (auto simp: js_le_def)

lemma numKey_inj: "numKey a = numKey b \<longleftrightarrow> a = b"
  by (cases a; cases b) auto

lemma insertBy_insort:
  assumes "\<not> isNaN (FusedDataPoint.sessionLength x)"
    and "\<forall>y \<in> set ys. \<not> isNaN (FusedDataPoint.sessionLength y)"
  shows "insertBy (\<lambda>a b. js_sub (FusedDataPoint.sessionLength a) (FusedDataPoint.sessionLength b)) x ys
         = insort_key durationKey x ys"
  using assms by (induction ys) (auto simp: cmp_key durationKey_def)

lemma jsSort_sort_key:
  assumes "\<forall>y \<in> set xs. \<not> isNaN (FusedDataPoint.sessionLength y)"
  shows "jsSort (\<lambda>a b. js_sub (FusedDataPoint.sessionLength a) (FusedDataPoint.sessionLength b)) xs
         = sort_key durationKey xs"
  using assms
proof (induction xs)
  case Nil
  show ?case by (simp add: jsSort_def)
next
  case (Cons x xs)
  then have "jsSort (\<lambda>a b. js_sub (FusedDataPoint.sessionLength a) (FusedDataPoint.sessionLength b)) xs
         = sort_key durationKey xs" by simp
  moreover have "\<forall>y \<in> set (sort_key durationKey xs). \<not> isNaN (FusedDataPoint.sessionLength y)"
    using Cons.prems by simp
  ultimately show ?case using Cons.prems
    by (simp add: jsSort_def insertBy_insort sort_key_def)
qed

lemma set_insertBy: "set (insertBy cmp x ys) = insert x (set ys)"
  by (induction ys) auto

lemma length_insertBy: "length (insertBy cmp x ys) = Suc (length ys)"
  by (induction ys) auto

lemma set_jsSort: "set (jsSort cmp xs) = set xs"
  by (induction xs) (auto simp: jsSort_def set_insertBy)

lemma length_jsSort: "length (jsSort cmp xs) = length xs"
  by (induction xs) (auto simp: jsSort_def length_insertBy)

lemma fuseData_unsorted:
  "fuseData S D = jsSort (\<lambda>a b. js_sub (FusedDataPoint.sessionLength a) (FusedDataPoint.sessionLength b)) (innerJoin S D)"
proof -
  have m: "buildAwsMap D = lookupLast D" by (rule ext) (rule buildAwsMap_lookupLast)
  have e: "S = [] \<or> D = [] \<Longrightarrow> innerJoin S D = []"
    by (auto simp: innerJoin_def joinPairs_def lookupLast_def map_filter_None)
  show ?thesis
  proof (cases "S = [] \<or> D = []")
    case True
    then show ?thesis using e by (auto simp: fuseData_def jsSort_def)
  next
    case False
    then show ?thesis by (simp add: fuseData_def m matchLoop_eq innerJoin_def)
  qed
qed

lemma innerJoin_length: "length (innerJoin S D) = length (filter (\<lambda>s. ShopifyData.sessionId s \<in> AWSData.sessionId ` set D) S)"
  unfolding innerJoin_def joinPairs_def
  by (induction S) (auto simp: lookupLast_None dest: lookupLast_in_ids split: option.splits)

lemma in_joinPairs:
  "(s, d) \<in> set (joinPairs S D) \<longleftrightarrow> s \<in> set S \<and> lookupLast D (ShopifyData.sessionId s) = Some d"
  by (auto simp: joinPairs_def set_map_filter_iff)

lemma in_innerJoin:
  "p \<in> set (innerJoin S D) \<Longrightarrow>
     \<exists>i s d. p = fusedRecord (i, s, d) \<and> s \<in> set S \<and> lookupLast D (ShopifyData.sessionId s) = Some d"
proof -
  assume "p \<in> set (innerJoin S D)"
  then obtain i s d where "p = fusedRecord (i, s, d)" "(i, s, d) \<in> set (enumerate 1 (joinPairs S D))"
    unfolding innerJoin_def by auto
  moreover from this have "(s, d) \<in> set (joinPairs S D)"
    by (metis in_set_zipE enumerate_eq_zip)
  ultimately show ?thesis unfolding in_joinPairs by blast
qed

lemma innerJoin_ids:
  "FusedDataPoint.sessionId ` set (innerJoin S D) =
     ShopifyData.sessionId ` set S \<inter> AWSData.sessionId ` set D"
proof (intro set_eqI iffI)
  fix x assume "x \<in> FusedDataPoint.sessionId ` set (innerJoin S D)"
  then obtain p where p: "p \<in> set (innerJoin S D)" "x = FusedDataPoint.sessionId p" by auto
  from in_innerJoin [OF p(1)] obtain i s d where
    *: "p = fusedRecord (i, s, d)" "s \<in> set S" "lookupLast D (ShopifyData.sessionId s) = Some d"
    by auto
  from lookupLast_in_ids [OF *(3)] * p(2)
  show "x \<in> ShopifyData.sessionId ` set S \<inter> AWSData.sessionId ` set D"
    by (auto simp: fusedRecord_def)
next
  fix x assume "x \<in> ShopifyData.sessionId ` set S \<inter> AWSData.sessionId ` set D"
  then obtain s where s: "s \<in> set S" "x = ShopifyData.sessionId s" "x \<in> AWSData.sessionId ` set D"
    by auto
  then obtain d where d: "lookupLast D (ShopifyData.sessionId s) = Some d"
    using lookupLast_Some_iff [of D x] by auto
  with s have "(s, d) \<in> set (joinPairs S D)" by (simp add: in_joinPairs)
  then obtain i where "i < length (joinPairs S D)" "joinPairs S D ! i = (s, d)"
    by (auto simp: in_set_conv_nth)
  then have "(Suc i, s, d) \<in> set (enumerate 1 (joinPairs S D))"
    by (auto simp: in_set_enumerate_eq)
  then have "fusedRecord (Suc i, s, d) \<in> set (innerJoin S D)"
    unfolding innerJoin_def by (metis imageI set_map)
  then show "x \<in> FusedDataPoint.sessionId ` set (innerJoin S D)"
    using s(2) by (force simp: fusedRecord_def)
qed

lemma innerJoin_lengths:
  assumes "p \<in> set (innerJoin S D)"
  shows "FusedDataPoint.sessionLength p \<in> AWSData.sessionLength ` set D"
proof -
  from in_innerJoin [OF assms] obtain i s d where
    *: "p = fusedRecord (i, s, d)" "lookupLast D (ShopifyData.sessionId s) = Some d" by auto
  from lookupLast_Some [OF *(2)] *(1) show ?thesis by (auto simp: fusedRecord_def)
qed

section \<open>The fuser\<close>

text \<open>
  C1. For duration records as the parsers produce them (no duration is NaN), the output of
  \<open>fuseData\<close> is the stable sort, ascending by duration, of the inner join: the duration
  records indexed by session id with the last record of an id winning, the success
  records scanned in their order, a fused record emitted on each hit with the success
  side's rate and the duration side's duration. The output is ascending in JavaScript's
  own \<open>\<le>\<close>, records of equal duration are in the order the join emitted them, and the
  session ids of the output are exactly those present in both inputs.
\<close>

theorem fuseData_stable_sorted_inner_join:
  assumes "\<forall>d \<in> set awsData. \<not> isNaN (AWSData.sessionLength d)"
  shows "fuseData shopifyData awsData = sort_key durationKey (innerJoin shopifyData awsData) \<and>
         sorted_wrt (\<lambda>p q. js_le (FusedDataPoint.sessionLength p) (FusedDataPoint.sessionLength q))
           (fuseData shopifyData awsData) \<and>
         (\<forall>k. filter (\<lambda>p. FusedDataPoint.sessionLength p = k) (fuseData shopifyData awsData) =
              filter (\<lambda>p. FusedDataPoint.sessionLength p = k) (innerJoin shopifyData awsData)) \<and>
         FusedDataPoint.sessionId ` set (fuseData shopifyData awsData) =
           ShopifyData.sessionId ` set shopifyData \<inter> AWSData.sessionId ` set awsData"
proof -
  let ?J = "innerJoin shopifyData awsData"
  have nn: "\<forall>p \<in> set ?J. \<not> isNaN (FusedDataPoint.sessionLength p)"
    using assms innerJoin_lengths by fastforce
  have eq: "fuseData shopifyData awsData = sort_key durationKey ?J"
    by (simp add: fuseData_unsorted jsSort_sort_key nn)
  have "sorted (map durationKey (sort_key durationKey ?J))" by simp
  then have "sorted_wrt (\<lambda>p q. durationKey p \<le> durationKey q) (sort_key durationKey ?J)"
    by (simp add: sorted_map)
  then have srt: "sorted_wrt (\<lambda>p q. js_le (FusedDataPoint.sessionLength p) (FusedDataPoint.sessionLength q))
           (sort_key durationKey ?J)"
    by (rule sorted_wrt_mono_rel [rotated]) (use nn in \<open>auto simp: js_le_key durationKey_def\<close>)
  have stab: "filter (\<lambda>p. FusedDataPoint.sessionLength p = k) (sort_key durationKey ?J) =
              filter (\<lambda>p. FusedDataPoint.sessionLength p = k) ?J" for k
    using sort_key_stable [of durationKey "numKey k" ?J]
    by (simp add: durationKey_def numKey_inj)
  have ids: "FusedDataPoint.sessionId ` set (sort_key durationKey ?J) =
           ShopifyData.sessionId ` set shopifyData \<inter> AWSData.sessionId ` set awsData"
    by (simp add: innerJoin_ids)
  show ?thesis unfolding eq using srt stab ids by blast
qed

theorem fuseData_stable_sorted_inner_join_witness:
  "list_all (\<lambda>d. \<not> isNaN (AWSData.sessionLength d)) exAws \<and>
   fuseData exShopify exAws = sort_key durationKey (innerJoin exShopify exAws) \<and>
   fuseData exShopify exAws =
     [\<lparr> FusedDataPoint.sessionId = ''b'', sessionLength = Fin 5, successRate = Fin 40, sessionNumber = 2 \<rparr>,
      \<lparr> FusedDataPoint.sessionId = ''c'', sessionLength = Fin 5, successRate = Fin 70, sessionNumber = 3 \<rparr>,
      \<lparr> FusedDataPoint.sessionId = ''a'', sessionLength = PosInf, successRate = Fin 90, sessionNumber = 1 \<rparr>]"
proof -
  have h: "\<forall>d \<in> set exAws. \<not> isNaN (AWSData.sessionLength d)"
    by (simp add: exAws_def)
  have v: "fuseData exShopify exAws =
     [\<lparr> FusedDataPoint.sessionId = ''b'', sessionLength = Fin 5, successRate = Fin 40, sessionNumber = 2 \<rparr>,
      \<lparr> FusedDataPoint.sessionId = ''c'', sessionLength = Fin 5, successRate = Fin 70, sessionNumber = 3 \<rparr>,
      \<lparr> FusedDataPoint.sessionId = ''a'', sessionLength = PosInf, successRate = Fin 90, sessionNumber = 1 \<rparr>]"
    by code_simp
  from fuseData_stable_sorted_inner_join [OF h, of exShopify] h v show ?thesis
    by (simp add: list_all_iff)
qed

section \<open>The number of matched sessions\<close>

lemma length_fuseData:
  "length (fuseData S D) =
     length (filter (\<lambda>s. ShopifyData.sessionId s \<in> AWSData.sessionId ` set D) S)"
  by (simp add: fuseData_unsorted length_jsSort innerJoin_length)

lemma set_fuseData: "set (fuseData S D) = set (innerJoin S D)"
  by (simp add: fuseData_unsorted set_jsSort)

text \<open>
  C7, as stated, fails: a success source that repeats a session id contributes one fused
  record per repetition, so two success rows for session \<open>a\<close> and one duration row for
  it give two fused records, more than the smaller input has.
\<close>

theorem matched_exceeds_min_counterexample:
  "parseShopifyCSV dupShopifyText = Inr dupShopify \<and>
   parseAWSCSV oneAwsText = Inr oneAws \<and>
   \<not> length (fuseData dupShopify oneAws) \<le> min (length dupShopify) (length oneAws)"
  by code_simp

text \<open>
  C7, amended. The number of fused records is at most the number of success records.
  When the success records have pairwise distinct session ids it is at most the smaller
  of the two record counts, and it equals that minimum only when the session ids of one
  side are a subset of the session ids of the other.
\<close>

theorem matched_bound:
  "length (fuseData shopifyData awsData) \<le> length shopifyData \<and>
   (distinct (map ShopifyData.sessionId shopifyData) \<longrightarrow>
      length (fuseData shopifyData awsData) \<le> min (length shopifyData) (length awsData) \<and>
      (length (fuseData shopifyData awsData) = min (length shopifyData) (length awsData) \<longrightarrow>
         ShopifyData.sessionId ` set shopifyData \<subseteq> AWSData.sessionId ` set awsData \<or>
         AWSData.sessionId ` set awsData \<subseteq> ShopifyData.sessionId ` set shopifyData))"
proof -
  let ?ids = "AWSData.sessionId ` set awsData"
  let ?P = "\<lambda>s. ShopifyData.sessionId s \<in> ?ids"
  let ?F = "filter ?P shopifyData"
  have len: "length (fuseData shopifyData awsData) = length ?F" by (rule length_fuseData)
  have le_S: "length ?F \<le> length shopifyData" by simp
  {
    assume d: "distinct (map ShopifyData.sessionId shopifyData)"
    then have "distinct (map ShopifyData.sessionId ?F)" by (simp add: distinct_map_filter)
    then have "card (set (map ShopifyData.sessionId ?F)) = length (map ShopifyData.sessionId ?F)"
      by (rule distinct_card)
    moreover have "set (map ShopifyData.sessionId ?F) = ShopifyData.sessionId ` set shopifyData \<inter> ?ids"
      by auto
    ultimately have c: "card (ShopifyData.sessionId ` set shopifyData \<inter> ?ids) = length ?F" by simp
    have "card (ShopifyData.sessionId ` set shopifyData \<inter> ?ids) \<le> card ?ids"
      by (simp add: card_mono)
    also have "card ?ids \<le> length awsData"
      using card_image_le [of "set awsData" AWSData.sessionId] card_length [of awsData] by simp
    finally have le_D: "length ?F \<le> length awsData" using c by simp
    have eq: "ShopifyData.sessionId ` set shopifyData \<subseteq> ?ids \<or>
              ?ids \<subseteq> ShopifyData.sessionId ` set shopifyData"
      if m: "length ?F = min (length shopifyData) (length awsData)"
    proof (cases "length ?F = length shopifyData")
      case True
      then have "\<forall>s \<in> set shopifyData. ?P s" by (metis filter_True length_filter_less less_irrefl nat_less_le le_S filter_id_conv)
      then show ?thesis by auto
    next
      case False
      with m have "length ?F = length awsData" by (simp add: min_def split: if_splits)
      with c have "card (ShopifyData.sessionId ` set shopifyData \<inter> ?ids) = length awsData" by simp
      moreover have "card ?ids \<le> length awsData"
        using card_image_le [of "set awsData" AWSData.sessionId] card_length [of awsData] by simp
      moreover have "card (ShopifyData.sessionId ` set shopifyData \<inter> ?ids) \<le> card ?ids"
        by (simp add: card_mono)
      ultimately have "card (ShopifyData.sessionId ` set shopifyData \<inter> ?ids) = card ?ids" by simp
      then have "ShopifyData.sessionId ` set shopifyData \<inter> ?ids = ?ids"
        by (intro card_subset_eq) auto
      then show ?thesis by blast
    qed
    note le_D eq
  }
  then show ?thesis using len le_S by (simp add: min_def)
qed

theorem matched_bound_witness:
  "distinct (map ShopifyData.sessionId (take 3 exShopify)) \<and>
   length (fuseData (take 3 exShopify) exAws) = 3 \<and>
   min (length (take 3 exShopify)) (length exAws) = 3 \<and>
   (ShopifyData.sessionId ` set (take 3 exShopify) \<subseteq> AWSData.sessionId ` set exAws \<or>
    AWSData.sessionId ` set exAws \<subseteq> ShopifyData.sessionId ` set (take 3 exShopify))"
proof -
  have d: "distinct (map ShopifyData.sessionId (take 3 exShopify))" by code_simp
  have l: "length (fuseData (take 3 exShopify) exAws) = 3" by code_simp
  have m: "min (length (take 3 exShopify)) (length exAws) = 3" by code_simp
  from matched_bound [of "take 3 exShopify" exAws] d l m show ?thesis by simp
qed

section \<open>The errors of the success-source parser\<close>

lemma csvLines_short: "length (csvLines t) < 2 \<longleftrightarrow> newline \<notin> set (trim t)"
  by (auto simp: csvLines_def length_split filter_empty_conv)

lemma collectRows_empty: "collectRows row ls [] = [] \<longleftrightarrow> (\<forall>l \<in> set ls. row l = None)"
proof -
  have "collectRows row ls [] = [] \<longleftrightarrow> set (collectRows row ls []) = {}" by simp
  also have "\<dots> \<longleftrightarrow> (\<forall>l \<in> set ls. row l = None)"
    using in_collectRows [of _ row ls] by (metis all_not_in_conv not_Some_eq)
  finally show ?thesis .
qed

text \<open>
  C9, as stated, fails: a text that is only a header line has one line, and the parser
  rejects every text of fewer than two lines with the too-few-lines error before it looks
  for columns or rows.
\<close>

theorem header_only_is_malformed_counterexample:
  "parseShopifyCSV headerOnlyText = Inl MalformedInput \<and>
   parseShopifyCSV headerOnlyText \<noteq> Inl EmptyResult"
  by code_simp

text \<open>
  C9, amended. \<open>parseShopifyCSV\<close> fails with \<open>MalformedInput\<close> exactly when the
  trimmed text has no line break, which includes every header-only text. It fails with
  \<open>EmptyResult\<close> exactly when the text has at least two lines, a session-id and a
  success-rate column are found, and every data line is skipped. Both are results of
  parsing alone; no fusion is involved.
\<close>

theorem shopify_malformed_and_empty:
  "(parseShopifyCSV csvText = Inl MalformedInput \<longleftrightarrow> newline \<notin> set (trim csvText)) \<and>
   (parseShopifyCSV csvText = Inl EmptyResult \<longleftrightarrow>
      newline \<in> set (trim csvText) \<and>
      findIndex isSessionIdHeader (csvHeaders (csvLines csvText)) \<noteq> -1 \<and>
      findIndex isSuccessRateHeader (csvHeaders (csvLines csvText)) \<noteq> -1 \<and>
      (\<forall>l \<in> set (tl (csvLines csvText)).
         shopifyRow (findIndex isSessionIdHeader (csvHeaders (csvLines csvText)))
                    (findIndex isOrderIdHeader (csvHeaders (csvLines csvText)))
                    (findIndex isSuccessRateHeader (csvHeaders (csvLines csvText)))
                    (findIndex isTimestampHeader (csvHeaders (csvLines csvText))) l = None))"
  using csvLines_short [of csvText]
  by (auto simp: parseShopifyCSV_def Let_def collectRows_empty)

theorem shopify_malformed_and_empty_witness:
  "newline \<notin> set (trim ''Session ID,Success Rate'') \<and>
   parseShopifyCSV ''Session ID,Success Rate'' = Inl MalformedInput \<and>
   newline \<in> set (trim noValidRowText) \<and>
   parseShopifyCSV noValidRowText = Inl EmptyResult"
proof -
  have a: "newline \<notin> set (trim ''Session ID,Success Rate'')" by code_simp
  have b: "newline \<in> set (trim noValidRowText)" by code_simp
  have c: "parseShopifyCSV noValidRowText = Inl EmptyResult" by code_simp
  from shopify_malformed_and_empty [of "''Session ID,Success Rate''"] a b c
  show ?thesis by simp
qed

section \<open>Rows without a session id\<close>

lemma fuseData_ids_from_shopify:
  assumes "p \<in> set (fuseData S D)"
  shows "FusedDataPoint.sessionId p \<in> ShopifyData.sessionId ` set S"
proof -
  from assms have "p \<in> set (innerJoin S D)" by (simp add: set_fuseData)
  from in_innerJoin [OF this] show ?thesis by (auto simp: fusedRecord_def)
qed

lemma shopifyRow_sessionId:
  "shopifyRow a b c d line = Some r \<Longrightarrow> ShopifyData.sessionId r \<noteq> []"
  by (auto simp: shopifyRow_def Let_def split: if_splits option.splits)

lemma awsRow_sessionId:
  "awsRow a b c d line = Some r \<Longrightarrow> AWSData.sessionId r \<noteq> []"
  by (auto simp: awsRow_def Let_def split: if_splits option.splits)

lemma awsRowTs_sessionId:
  "awsRowTs dp a b c d e f line = Some r \<Longrightarrow> AWSData.sessionId r \<noteq> []"
  by (auto simp: awsRowTs_def Let_def split: if_splits option.splits)

text \<open>
  C10. A data row whose session-id cell is empty (after trimming and the removal of one
  layer of quotes) is skipped by the success-source parser and by both versions of the
  duration-source parser, whatever its other cells hold. Hence every record a parser
  returns has a non-empty session id, and so has every fused record built from parsed
  success records.
\<close>

theorem empty_session_id_skipped:
  "(elemAt (csvValues line) sessionIdIndex = Some [] \<longrightarrow>
      shopifyRow sessionIdIndex orderIdIndex successRateIndex timestampIndex line = None \<and>
      awsRow sessionIdIndex sessionLengthIndex userIdIndex timestampIndex line = None \<and>
      awsRowTs dateParse sessionIdIndex sessionLengthIndex startIndex endIndex userIdIndex
        timestampIndex line = None) \<and>
   (parseShopifyCSV shopifyText = Inr shopifyData \<longrightarrow>
      (\<forall>r \<in> set shopifyData. ShopifyData.sessionId r \<noteq> []) \<and>
      (\<forall>p \<in> set (fuseData shopifyData awsData). FusedDataPoint.sessionId p \<noteq> [])) \<and>
   (parseAWSCSV awsText = Inr awsData' \<longrightarrow> (\<forall>r \<in> set awsData'. AWSData.sessionId r \<noteq> [])) \<and>
   (parseAWSCSV_timestamps dateParse awsText = Inr awsData'' \<longrightarrow>
      (\<forall>r \<in> set awsData''. AWSData.sessionId r \<noteq> []))"
proof -
  have skip: "shopifyRow sessionIdIndex orderIdIndex successRateIndex timestampIndex line = None \<and>
      awsRow sessionIdIndex sessionLengthIndex userIdIndex timestampIndex line = None \<and>
      awsRowTs dateParse sessionIdIndex sessionLengthIndex startIndex endIndex userIdIndex
        timestampIndex line = None"
    if "elemAt (csvValues line) sessionIdIndex = Some []"
    using that by (simp add: shopifyRow_def awsRow_def awsRowTs_def Let_def split: option.splits)
  have s: "\<forall>r \<in> set shopifyData. ShopifyData.sessionId r \<noteq> []"
    if "parseShopifyCSV shopifyText = Inr shopifyData"
    using parseShopifyCSV_rows [OF that] shopifyRow_sessionId by blast
  have f: "\<forall>p \<in> set (fuseData shopifyData awsData). FusedDataPoint.sessionId p \<noteq> []"
    if "parseShopifyCSV shopifyText = Inr shopifyData"
    using s [OF that] fuseData_ids_from_shopify [of _ shopifyData awsData] by force
  have a: "\<forall>r \<in> set awsData'. AWSData.sessionId r \<noteq> []" if "parseAWSCSV awsText = Inr awsData'"
    using parseAWSCSV_rows [OF that] awsRow_sessionId by blast
  have t: "\<forall>r \<in> set awsData''. AWSData.sessionId r \<noteq> []"
    if "parseAWSCSV_timestamps dateParse awsText = Inr awsData''"
    using parseAWSCSV_timestamps_rows [OF that] awsRowTs_sessionId by blast
  from skip s f a t show ?thesis by blast
qed

theorem empty_session_id_skipped_witness:
  "elemAt (csvValues '',0.5'') 0 = Some [] \<and>
   parseFloatCell (elemAt (csvValues '',0.5'') 1) = Fin (1 / 2) \<and>
   shopifyRow 0 (- 1) 1 (- 1) '',0.5'' = None \<and>
   awsRow 0 1 (- 1) (- 1) '',0.5'' = None \<and>
   awsRowTs (\<lambda>s. NaN) 0 1 (- 1) (- 1) (- 1) (- 1) '',0.5'' = None \<and>
   parseShopifyCSV exShopifyText =
     Inr [\<lparr> ShopifyData.sessionId = ''s1'', orderId = None, successRate = Fin 90, timestamp = None \<rparr>,
          \<lparr> ShopifyData.sessionId = ''s2'', orderId = None, successRate = Fin 40, timestamp = None \<rparr>] \<and>
   parseAWSCSV exAwsText =
     Inr [\<lparr> AWSData.sessionId = ''s2'', sessionLength = Fin 5, userId = None, timestamp = None \<rparr>,
          \<lparr> AWSData.sessionId = ''s1'', sessionLength = Fin (5 / 2), userId = None, timestamp = None \<rparr>] \<and>
   parseAWSCSV_timestamps (\<lambda>s. NaN) exAwsText =
     Inr [\<lparr> AWSData.sessionId = ''s2'', sessionLength = Fin 5, userId = None, timestamp = None \<rparr>,
          \<lparr> AWSData.sessionId = ''s1'', sessionLength = Fin (5 / 2), userId = None, timestamp = None \<rparr>] \<and>
   list_all (\<lambda>p. FusedDataPoint.sessionId p \<noteq> [])
     (fuseData
        [\<lparr> ShopifyData.sessionId = ''s1'', orderId = None, successRate = Fin 90, timestamp = None \<rparr>,
         \<lparr> ShopifyData.sessionId = ''s2'', orderId = None, successRate = Fin 40, timestamp = None \<rparr>]
        [\<lparr> AWSData.sessionId = ''s2'', sessionLength = Fin 5, userId = None, timestamp = None \<rparr>,
         \<lparr> AWSData.sessionId = ''s1'', sessionLength = Fin (5 / 2), userId = None, timestamp = None \<rparr>])"
proof -
  have c: "elemAt (csvValues '',0.5'') 0 = Some []" by code_simp
  have n: "parseFloatCell (elemAt (csvValues '',0.5'') 1) = Fin (1 / 2)" by code_simp
  have s: "parseShopifyCSV exShopifyText =
     Inr [\<lparr> ShopifyData.sessionId = ''s1'', orderId = None, successRate = Fin 90, timestamp = None \<rparr>,
          \<lparr> ShopifyData.sessionId = ''s2'', orderId = None, successRate = Fin 40, timestamp = None \<rparr>]"
    by code_simp
  have a: "parseAWSCSV exAwsText =
     Inr [\<lparr> AWSData.sessionId = ''s2'', sessionLength = Fin 5, userId = None, timestamp = None \<rparr>,
          \<lparr> AWSData.sessionId = ''s1'', sessionLength = Fin (5 / 2), userId = None, timestamp = None \<rparr>]"
    by code_simp
  have t: "parseAWSCSV_timestamps (\<lambda>s. NaN) exAwsText =
     Inr [\<lparr> AWSData.sessionId = ''s2'', sessionLength = Fin 5, userId = None, timestamp = None \<rparr>,
          \<lparr> AWSData.sessionId = ''s1'', sessionLength = Fin (5 / 2), userId = None, timestamp = None \<rparr>]"
    by code_simp
  from empty_session_id_skipped [of "'',0.5''" 0 "- 1" 1 "- 1" 1 "- 1" "\<lambda>s. NaN" "- 1" "- 1"
         exShopifyText _ _ exAwsText] c n s a t
  show ?thesis by (simp add: list_all_iff)
qed

section \<open>Digit strings\<close>












lemma takeWhile_digits_all:
  "\<forall>c \<in> set ds. isDigit c \<Longrightarrow> takeWhile isDigit ds = ds \<and> dropWhile isDigit ds = []"
  by simp




section \<open>Reading back what \<open>toFixed\<close> prints\<close>






section \<open>The stored success rate\<close>











section \<open>The scale of the stored success rate\<close>






section \<open>Durations the duration-source parser stores\<close>

text \<open>
  C4 does not hold of the code. The parser with timestamp columns tests
  \<open>!isNaN(sessionLength) && sessionLength > 0\<close> and then stores
  \<open>Number(sessionLength.toFixed(2))\<close>: the cell \<open>0.004\<close> passes the test and is stored as
  \<open>0\<close>, the cell \<open>Infinity\<close> passes it and is stored as infinity. The parser of
  \<open>src/components/SessionAnalyzer.tsx\<close> has no test for a positive value at all and
  stores the cells \<open>-5\<close> and \<open>0\<close> as they are.
\<close>

theorem duration_zero_and_infinite_stored:
  "parseAWSCSV_timestamps (\<lambda>s. NaN) zeroAndInfiniteText =
     Inr [\<lparr> AWSData.sessionId = ''s1'', sessionLength = Fin 0, userId = None, timestamp = None \<rparr>,
          \<lparr> AWSData.sessionId = ''s2'', sessionLength = PosInf, userId = None, timestamp = None \<rparr>,
          \<lparr> AWSData.sessionId = ''s4'', sessionLength = Fin (5 / 2), userId = None, timestamp = None \<rparr>] \<and>
   \<not> js_gt (Fin 0) (Fin 0) \<and>
   parseAWSCSV nonPositiveText =
     Inr [\<lparr> AWSData.sessionId = ''s1'', sessionLength = Fin (- 5), userId = None, timestamp = None \<rparr>,
          \<lparr> AWSData.sessionId = ''s2'', sessionLength = Fin 0, userId = None, timestamp = None \<rparr>] \<and>
   \<not> js_gt (Fin (- 5)) (Fin 0)"
  by code_simp

section \<open>Durations from epoch timestamps\<close>








section \<open>The statistics of the fusion report\<close>









section \<open>Reading back what \<open>String\<close> prints\<close>


















section \<open>The exported text\<close>










section \<open>Export and re-parse\<close>








end
